theory Spec2Isabelle
  imports Main "HOL-Library.Word" "HOL-Library.Sublist"
begin

unbundle bit_operations_syntax

section \<open>C strings and the libc routines of \<^verbatim>\<open>lib/util.c\<close>\<close>

text \<open>
  A C string is modelled by its contents, the characters before the terminating NUL, as a
  \<^typ>\<open>string\<close>. A pointer into a string is the suffix that starts there; a NULL
  pointer is \<^term>\<open>None\<close>. A string handed over by the caller is held by value: the
  model does not follow a caller that rewrites the memory behind a pointer it has passed in.
\<close>

definition cstring :: "string \<Rightarrow> bool" where
  "cstring s = (CHR 0x00 \<notin> set s)"

text \<open>\<^verbatim>\<open>strrchr(s, c)\<close> for a character \<open>c\<close> other than NUL: the last occurrence.\<close>

fun strrchr :: "string \<Rightarrow> char \<Rightarrow> string option" where
  "strrchr [] c = None"
| "strrchr (x # xs) c =
     (case strrchr xs c of
        Some r \<Rightarrow> Some r
      | None \<Rightarrow> if x = c then Some (x # xs) else None)"

text \<open>\<^verbatim>\<open>strpbrk(s, accept)\<close>: the first character of \<open>s\<close> that occurs in \<open>accept\<close>.\<close>

fun strpbrk :: "string \<Rightarrow> string \<Rightarrow> string option" where
  "strpbrk [] accept = None"
| "strpbrk (x # xs) accept =
     (if x \<in> set accept then Some (x # xs) else strpbrk xs accept)"

text \<open>
  \<^verbatim>\<open>strlcpy(dst, src, siz)\<close> with \<open>siz > 0\<close>: the contents of \<open>dst\<close> afterwards, at most
  \<open>siz - 1\<close> characters of \<open>src\<close>. Both callers pass a size of at least 1.
\<close>

definition strlcpy :: "string \<Rightarrow> nat \<Rightarrow> string" where
  "strlcpy src siz = take (siz - 1) src"

text \<open>
  \<^verbatim>\<open>strcmp\<close> and \<^verbatim>\<open>strncmp\<close> compare as unsigned characters; the end of a string
  reads as NUL.
\<close>

fun strcmp :: "string \<Rightarrow> string \<Rightarrow> int" where
  "strcmp [] [] = 0"
| "strcmp [] (y # ys) = - int (of_char y)"
| "strcmp (x # xs) [] = int (of_char x)"
| "strcmp (x # xs) (y # ys) =
     (if x = y then strcmp xs ys else int (of_char x) - int (of_char y))"

fun strncmp :: "string \<Rightarrow> string \<Rightarrow> nat \<Rightarrow> int" where
  "strncmp s1 s2 0 = 0"
| "strncmp [] [] (Suc n) = 0"
| "strncmp [] (y # ys) (Suc n) = - int (of_char y)"
| "strncmp (x # xs) [] (Suc n) = int (of_char x)"
| "strncmp (x # xs) (y # ys) (Suc n) =
     (if x = y then strncmp xs ys n else int (of_char x) - int (of_char y))"

text \<open>
  The allocator is a parameter: \<open>malloc n\<close> tells whether a request for \<open>n\<close> bytes is
  served. Every \<^verbatim>\<open>NULL\<close> check after an allocation is a branch of the model.
\<close>

type_synonym allocator = "nat \<Rightarrow> bool"

section \<open>Identifier grammar parser\<close>

definition xbps_get_pkg_epoch :: "string \<Rightarrow> string option" where
  "xbps_get_pkg_epoch pkg =
     (case strrchr pkg (CHR '':'') of
        None \<Rightarrow> None
      | Some tmp \<Rightarrow> Some (drop 1 tmp))"

definition xbps_get_pkg_version :: "string \<Rightarrow> string option" where
  "xbps_get_pkg_version pkg =
     (case strrchr pkg (CHR ''-'') of
        None \<Rightarrow> None
      | Some tmp \<Rightarrow> Some (drop 1 tmp))"

definition xbps_get_pkg_revision :: "string \<Rightarrow> string option" where
  "xbps_get_pkg_revision pkg =
     (case strrchr pkg (CHR ''_'') of
        None \<Rightarrow> None
      | Some tmp \<Rightarrow> Some (drop 1 tmp))"

definition xbps_get_pkg_name :: "allocator \<Rightarrow> string \<Rightarrow> string option" where
  "xbps_get_pkg_name malloc pkg =
     (case strrchr pkg (CHR ''-'') of
        None \<Rightarrow> None
      | Some tmp \<Rightarrow>
          (let len = length pkg - length tmp + 1 in
           if \<not> malloc len then None
           else Some (strlcpy pkg len)))"

section \<open>Pattern splitter\<close>

definition xbps_get_pkgpattern_name :: "allocator \<Rightarrow> string \<Rightarrow> string option" where
  "xbps_get_pkgpattern_name malloc pkg =
     (case strpbrk pkg ''><='' of
        None \<Rightarrow> None
      | Some res \<Rightarrow>
          (let len = length pkg - length res + 1 in
           if \<not> malloc len then None
           else Some (strlcpy pkg len)))"

definition xbps_get_pkgpattern_version :: "string \<Rightarrow> string option" where
  "xbps_get_pkgpattern_version pkg =
     (case strpbrk pkg ''><='' of
        None \<Rightarrow> None
      | Some res \<Rightarrow> Some res)"

section \<open>Remote or local repository\<close>

definition xbps_check_is_repo_string_remote :: "string \<Rightarrow> bool" where
  "xbps_check_is_repo_string_remote uri =
     (if strncmp uri ''https://'' 8 = 0 \<or>
         strncmp uri ''http://'' 7 = 0 \<or>
         strncmp uri ''ftp://'' 6 = 0
      then True
      else False)"


section \<open>Digest engine\<close>

type_synonym byte = "8 word"

definition SHA256_DIGEST_LENGTH :: nat where
  "SHA256_DIGEST_LENGTH = 32"

text \<open>
  The hexadecimal rendering of \<open>len\<close> bytes. The digest array holds
  \<^term>\<open>SHA256_DIGEST_LENGTH\<close> bytes and the only caller passes that length, so the loop
  never reads beyond the array; the second equation is not reached from the code.
\<close>

fun digest2string :: "byte list \<Rightarrow> nat \<Rightarrow> string" where
  "digest2string digest 0 = []"
| "digest2string [] (Suc len) = []"
| "digest2string (d # digest) (Suc len) =
     (if unat d div 16 < 10 then char_of (48 + unat d div 16)
      else char_of (97 + unat d div 16 - 10)) #
     (if unat d mod 16 < 10 then char_of (48 + unat d mod 16)
      else char_of (97 + unat d mod 16 - 10)) #
     digest2string digest len"

text \<open>The values of \<^verbatim>\<open>errno\<close> and the limits that the code names (Linux, LP64).\<close>

definition ENOENT :: int where "ENOENT = 2"
definition ENOMEM :: int where "ENOMEM = 12"
definition EINVAL :: int where "EINVAL = 22"
definition ERANGE :: int where "ERANGE = 34"
definition INT_MAX :: int where "INT_MAX = 2147483647"
definition SSIZE_MAX :: int where "SSIZE_MAX = 9223372036854775807"

text \<open>
  What the operating system answers for one path: whether \<^verbatim>\<open>open\<close> and \<^verbatim>\<open>fstat\<close>
  fail (and with which \<^verbatim>\<open>errno\<close>), the bytes of the file, whose number \<^verbatim>\<open>fstat\<close>
  reports as \<^verbatim>\<open>st_size\<close>, and whether \<^verbatim>\<open>mmap\<close> of a given length fails.
\<close>

record os_file =
  open_errno :: "int option"
  fstat_errno :: "int option"
  contents :: "byte list"
  mmap_errno :: "64 word \<Rightarrow> int option"

text \<open>
  The environment of the digest engine: the page size as \<^verbatim>\<open>size_t\<close>, the files, the
  hash function of the cryptographic library (\<^term>\<open>None\<close> when it returns
  \<^verbatim>\<open>NULL\<close>) and the allocator.
\<close>

record os =
  pagesize :: "64 word"
  files :: "string \<Rightarrow> os_file"
  SHA256 :: "byte list \<Rightarrow> byte list option"
  os_malloc :: allocator

text \<open>\<^verbatim>\<open>strdup\<close>: a copy, or \<^verbatim>\<open>NULL\<close> with \<^verbatim>\<open>errno\<close> set.\<close>

definition strdup :: "allocator \<Rightarrow> int \<Rightarrow> string \<Rightarrow> string option \<times> int" where
  "strdup malloc errno s =
     (if malloc (length s + 1) then (Some s, errno) else (None, ENOMEM))"

text \<open>
  \<^verbatim>\<open>munmap(buf, len)\<close> on the mapping just made: the value of \<^verbatim>\<open>errno\<close> afterwards. A
  length of 0 is refused with \<^term>\<open>EINVAL\<close>; any other length the code passes is a
  whole number of pages inside the mapping, and the call succeeds.
\<close>

definition munmap :: "int \<Rightarrow> 64 word \<Rightarrow> int" where
  "munmap errno len = (if len = 0 then EINVAL else errno)"

text \<open>
  The result and the value of \<^verbatim>\<open>errno\<close> afterwards; \<open>errno\<close> is its value before the
  call. A failing system call sets it; the two size checks return without touching it, and
  after the mapping is made only \<^verbatim>\<open>munmap\<close> and \<^verbatim>\<open>strdup\<close> can change it. The code
  unmaps \<open>mapsize\<close> bytes, which is 0 for an empty file.
\<close>

definition xbps_get_file_hash :: "os \<Rightarrow> int \<Rightarrow> string \<Rightarrow> string option \<times> int" where
  "xbps_get_file_hash sys errno file =
     (let pgsize = pagesize sys;
          pgmask = pgsize - 1;
          f = files sys file
      in case open_errno f of
           Some e \<Rightarrow> (None, e)
         | None \<Rightarrow>
          (case fstat_errno f of
             Some e \<Rightarrow> (None, e)
           | None \<Rightarrow>
              (let st_size = int (length (contents f)) in
               if st_size > SSIZE_MAX - 1 then (None, errno)
               else
                 (let mapsize = (word_of_int st_size + pgmask) AND NOT pgmask in
                  if mapsize < word_of_int st_size then (None, errno)
                  else
                    (let need_guard = (word_of_int st_size AND pgmask = 0) in
                     case mmap_errno f (if need_guard then mapsize + pgsize else mapsize) of
                       Some e \<Rightarrow> (None, e)
                     | None \<Rightarrow>
                        (case SHA256 sys (contents f) of
                           None \<Rightarrow> (None, munmap errno mapsize)
                         | Some digest \<Rightarrow>
                             strdup (os_malloc sys) (munmap errno mapsize)
                               (digest2string digest SHA256_DIGEST_LENGTH)))))))"

definition xbps_check_file_hash :: "os \<Rightarrow> int \<Rightarrow> string \<Rightarrow> string \<Rightarrow> int" where
  "xbps_check_file_hash sys errno file sha256 =
     (case xbps_get_file_hash sys errno file of
        (None, errno') \<Rightarrow> errno'
      | (Some res, errno') \<Rightarrow> if strcmp sha256 res \<noteq> 0 then ERANGE else 0)"

section \<open>Process-wide configuration\<close>

text \<open>
  The three file-scope variables. A pointer variable that is \<^verbatim>\<open>NULL\<close> is
  \<^term>\<open>None\<close>; one that is set holds the string it points to.
\<close>

record config =
  rootdir :: "string option"
  cachedir :: "string option"
  flags :: int

text \<open>
  The constants taken from headers that are not part of the source file: the size of the
  static path buffers and the default cache subpath.
\<close>

record platform =
  PATH_MAX :: nat
  XBPS_CACHE_PATH :: string

text \<open>
  \<^verbatim>\<open>snprintf(buf, siz, ...)\<close> with \<open>siz > 0\<close>, applied to the formatted text: the
  contents of the buffer and the returned count, \<open>-1\<close> when the count does not fit an
  \<^verbatim>\<open>int\<close>.
\<close>

definition snprintf :: "nat \<Rightarrow> string \<Rightarrow> string \<times> int" where
  "snprintf siz s =
     (take (siz - 1) s, if int (length s) > INT_MAX then - 1 else int (length s))"

definition xbps_set_rootdir :: "string \<Rightarrow> config \<Rightarrow> config" where
  "xbps_set_rootdir dir c = c\<lparr>rootdir := Some dir\<rparr>"

definition xbps_get_rootdir :: "config \<Rightarrow> string \<times> config" where
  "xbps_get_rootdir c =
     (case rootdir c of
        None \<Rightarrow> (''/'', c\<lparr>rootdir := Some ''/''\<rparr>)
      | Some r \<Rightarrow> (r, c))"

definition xbps_set_cachedir :: "platform \<Rightarrow> string \<Rightarrow> config \<Rightarrow> config" where
  "xbps_set_cachedir p dir c =
     (case xbps_get_rootdir c of
        (root, c') \<Rightarrow>
          (case snprintf (PATH_MAX p - 1) (root @ ''/'' @ dir) of
             (res, r) \<Rightarrow>
               if r = - 1 \<or> r \<ge> int (PATH_MAX p) - 1
               then c'\<lparr>cachedir := Some (XBPS_CACHE_PATH p)\<rparr>
               else c'\<lparr>cachedir := Some res\<rparr>))"

definition xbps_get_cachedir :: "platform \<Rightarrow> config \<Rightarrow> string option \<times> config" where
  "xbps_get_cachedir p c =
     (case cachedir c of
        Some d \<Rightarrow> (Some d, c)
      | None \<Rightarrow>
         (case xbps_get_rootdir c of
            (root, c') \<Rightarrow>
              (case snprintf (PATH_MAX p - 1) (root @ ''/'' @ XBPS_CACHE_PATH p) of
                 (res, r) \<Rightarrow>
                   if r = - 1 \<or> r \<ge> int (PATH_MAX p) - 1 then (None, c')
                   else (Some res, c'\<lparr>cachedir := Some res\<rparr>))))"

definition xbps_set_flags :: "int \<Rightarrow> config \<Rightarrow> config" where
  "xbps_set_flags lflags c = c\<lparr>flags := lflags\<rparr>"

definition xbps_get_flags :: "config \<Rightarrow> int" where
  "xbps_get_flags c = flags c"

section \<open>Location resolver\<close>

text \<open>
  \<^verbatim>\<open>vasprintf\<close> applied to the formatted text: \<^verbatim>\<open>NULL\<close> when the text is longer than
  an \<^verbatim>\<open>int\<close> can count or the allocation fails.
\<close>

definition xbps_xasprintf :: "allocator \<Rightarrow> string \<Rightarrow> string option" where
  "xbps_xasprintf malloc s =
     (if int (length s) > INT_MAX \<or> \<not> malloc (length s + 1) then None else Some s)"

text \<open>
  A property-list dictionary maps keys to objects. \<^verbatim>\<open>prop_dictionary_get_cstring_nocopy\<close>
  stores a pointer and returns true only for a key that holds a string; otherwise it leaves
  the caller's variable as it was.
\<close>

datatype prop_object = Prop_string string | Prop_number int | Prop_bool bool

type_synonym prop_dictionary = "string \<rightharpoonup> prop_object"

definition prop_dictionary_get_cstring_nocopy :: "prop_dictionary \<Rightarrow> string \<Rightarrow> string option" where
  "prop_dictionary_get_cstring_nocopy d key =
     (case d key of Some (Prop_string s) \<Rightarrow> Some s | _ \<Rightarrow> None)"

text \<open>
  A call either returns or has no meaning in C: \<^term>\<open>Undefined\<close> stands for the use of
  a pointer variable that was never given a value.
\<close>

datatype 'a behaviour = Returns 'a | Undefined

text \<open>
  \<^verbatim>\<open>filen\<close> and \<^verbatim>\<open>arch\<close> are declared without an initial value and the results of the
  two dictionary reads are ignored, so each is \<^term>\<open>None\<close> here exactly when it is
  still uninitialised at the point where the path is formatted.
\<close>

definition xbps_get_binpkg_local_path ::
  "platform \<Rightarrow> allocator \<Rightarrow> prop_dictionary \<Rightarrow> string \<Rightarrow> config
     \<Rightarrow> string option behaviour \<times> config" where
  "xbps_get_binpkg_local_path p malloc pkgd repoloc c =
     (let filen = prop_dictionary_get_cstring_nocopy pkgd ''filename'';
          arch = prop_dictionary_get_cstring_nocopy pkgd ''architecture''
      in case xbps_get_cachedir p c of
           (None, c') \<Rightarrow> (Returns None, c')
         | (Some cdir, c') \<Rightarrow>
             if \<not> xbps_check_is_repo_string_remote repoloc then
               (case (arch, filen) of
                  (Some a, Some f) \<Rightarrow>
                    (Returns (xbps_xasprintf malloc (repoloc @ ''/'' @ a @ ''/'' @ f)), c')
                | _ \<Rightarrow> (Undefined, c'))
             else
               (case filen of
                  Some f \<Rightarrow> (Returns (xbps_xasprintf malloc (cdir @ ''/'' @ f)), c')
                | None \<Rightarrow> (Undefined, c')))"

section \<open>Installed-state check\<close>

text \<open>
  The routines of the library that live in other source files are parameters: the lookup
  of an installed package by name, which yields the dictionary (or \<^verbatim>\<open>NULL\<close>) and the
  value of \<^verbatim>\<open>errno\<close> after the call, the reading of the package state, which yields its
  return value and the state, the pattern matcher, and the constant of the fully installed
  state.
\<close>

record metadata_store =
  xbps_find_pkg_dict_installed :: "string \<Rightarrow> bool \<Rightarrow> prop_dictionary option \<times> int"
  xbps_get_pkg_state_dictionary :: "prop_dictionary \<Rightarrow> int \<times> int"
  xbps_pkgpattern_match :: "string \<Rightarrow> string \<Rightarrow> int"
  XBPS_PKG_STATE_INSTALLED :: int

definition xbps_get_pkgver_from_dict :: "prop_dictionary \<Rightarrow> string option" where
  "xbps_get_pkgver_from_dict d = prop_dictionary_get_cstring_nocopy d ''pkgver''"

definition xbps_check_is_installed_pkg :: "metadata_store \<Rightarrow> allocator \<Rightarrow> string \<Rightarrow> int" where
  "xbps_check_is_installed_pkg ms malloc pkg =
     (case xbps_get_pkgpattern_name malloc pkg of
        None \<Rightarrow> - 1
      | Some pkgname \<Rightarrow>
         (case xbps_find_pkg_dict_installed ms pkgname False of
            (None, errno) \<Rightarrow> if errno = ENOENT then 0 else - 1
          | (Some dict, errno) \<Rightarrow>
             (case xbps_get_pkg_state_dictionary ms dict of
                (rv, state) \<Rightarrow>
                  if rv \<noteq> 0 then - 1
                  else if state \<noteq> XBPS_PKG_STATE_INSTALLED ms then 0
                  else
                    (case xbps_get_pkgver_from_dict dict of
                       None \<Rightarrow> - 1
                     | Some instpkgver \<Rightarrow> xbps_pkgpattern_match ms instpkgver pkg))))"

definition xbps_check_is_installed_pkgname :: "metadata_store \<Rightarrow> string \<Rightarrow> bool" where
  "xbps_check_is_installed_pkgname ms pkgname =
     (case xbps_find_pkg_dict_installed ms pkgname False of
        (Some pkgd, errno) \<Rightarrow> True
      | (None, errno) \<Rightarrow> False)"


section \<open>Example environments\<close>

text \<open>An allocator that serves every request.\<close>

definition malloc_succeeds :: allocator where
  "malloc_succeeds n = True"

text \<open>
  A system where every path names a readable file of three bytes and the hash function
  answers with 32 bytes \<open>0xab\<close>, and one where \<^verbatim>\<open>open\<close> fails with \<^term>\<open>ENOENT\<close>.
\<close>

definition sys0 :: os where
  "sys0 = \<lparr>pagesize = 4096,
           files = (\<lambda>path. \<lparr>open_errno = None, fstat_errno = None, contents = [1, 2, 3],
                            mmap_errno = (\<lambda>len. None)\<rparr>),
           SHA256 = (\<lambda>bs. Some (replicate 32 171)),
           os_malloc = malloc_succeeds\<rparr>"





text \<open>A system where every path names a readable empty file.\<close>

definition sys_empty_file :: os where
  "sys_empty_file = \<lparr>pagesize = 4096,
           files = (\<lambda>path. \<lparr>open_errno = None, fstat_errno = None, contents = [],
                            mmap_errno = (\<lambda>len. None)\<rparr>),
           SHA256 = (\<lambda>bs. Some (replicate 32 171)),
           os_malloc = malloc_succeeds\<rparr>"

text \<open>
  A platform with the usual values of the two constants, the configuration at program
  start, and one whose root directory is as long as the path buffer.
\<close>

definition plat0 :: platform where
  "plat0 = \<lparr>PATH_MAX = 4096, XBPS_CACHE_PATH = ''var/cache/xbps''\<rparr>"

definition conf0 :: config where
  "conf0 = \<lparr>rootdir = None, cachedir = None, flags = 0\<rparr>"

definition conf_long_root :: config where
  "conf_long_root = \<lparr>rootdir = Some (replicate 4096 (CHR ''a'')), cachedir = None, flags = 0\<rparr>"

text \<open>
  A metadata store in which the package \<open>foo\<close>, version 1.0, is fully installed and no
  other, with a matcher that accepts everything; and two package records, one without a
  file name and one without an architecture.
\<close>

definition ms_foo :: metadata_store where
  "ms_foo = \<lparr>xbps_find_pkg_dict_installed =
               (\<lambda>name flag. if name = ''foo''
                  then (Some [''pkgver'' \<mapsto> Prop_string ''foo-1.0''], 0)
                  else (None, ENOENT)),
             xbps_get_pkg_state_dictionary = (\<lambda>d. (0, 2)),
             xbps_pkgpattern_match = (\<lambda>pkgver pattern. 1),
             XBPS_PKG_STATE_INSTALLED = 2\<rparr>"

definition pkgd_no_filename :: prop_dictionary where
  "pkgd_no_filename = [''architecture'' \<mapsto> Prop_string ''x86_64'']"

definition pkgd_no_arch :: prop_dictionary where
  "pkgd_no_arch = [''filename'' \<mapsto> Prop_string ''foo-1.0.x86_64.xbps'']"

section \<open>Properties of the string routines\<close>

lemma strrchr_None: "strrchr s c = None \<longleftrightarrow> c \<notin> set s"
  by (induction s) (auto split: option.splits)

lemma strrchr_last: "c \<notin> set v \<Longrightarrow> strrchr (n @ c # v) c = Some (c # v)"
  by (induction n) (auto simp: strrchr_None [THEN iffD2] split: option.splits)

lemma strrchr_Some:
  "strrchr s c = Some r \<Longrightarrow> \<exists>n v. s = n @ c # v \<and> r = c # v \<and> c \<notin> set v"
proof (induction s)
  case Nil
  then show ?case by simp
next
  case (Cons x xs)
  show ?case
  proof (cases "strrchr xs c")
    case None
    with Cons.prems have "x = c" "r = x # xs" by (auto split: if_splits)
    moreover from None have "c \<notin> set xs" by (simp add: strrchr_None)
    ultimately show ?thesis by blast
  next
    case (Some r')
    with Cons.prems have "r' = r" by simp
    with Some Cons.IH obtain n v where "xs = n @ c # v" "r = c # v" "c \<notin> set v" by blast
    then have "x # xs = (x # n) @ c # v" by simp
    then show ?thesis using \<open>r = c # v\<close> \<open>c \<notin> set v\<close> by blast
  qed
qed

lemma strpbrk_None: "strpbrk s a = None \<longleftrightarrow> set s \<inter> set a = {}"
  by (induction s) auto

lemma strpbrk_first:
  "set n \<inter> set a = {} \<Longrightarrow> c \<in> set a \<Longrightarrow> strpbrk (n @ c # r) a = Some (c # r)"
  by (induction n) auto

lemma strpbrk_Some:
  "strpbrk s a = Some r \<Longrightarrow> \<exists>n c v. s = n @ c # v \<and> r = c # v \<and> c \<in> set a \<and> set n \<inter> set a = {}"
proof (induction s)
  case Nil
  then show ?case by simp
next
  case (Cons x xs)
  show ?case
  proof (cases "x \<in> set a")
    case True
    with Cons.prems have "r = x # xs" by simp
    then have "x # xs = [] @ x # xs \<and> r = x # xs \<and> x \<in> set a \<and> set [] \<inter> set a = {}"
      using True by simp
    then show ?thesis by blast
  next
    case False
    with Cons.prems have "strpbrk xs a = Some r" by simp
    with Cons.IH obtain n c v where
      "xs = n @ c # v" "r = c # v" "c \<in> set a" "set n \<inter> set a = {}" by blast
    with False have "x # xs = (x # n) @ c # v \<and> r = c # v \<and> c \<in> set a \<and> set (x # n) \<inter> set a = {}"
      by simp
    then show ?thesis by blast
  qed
qed

lemma of_char_eq_0: "(of_char c :: nat) = 0 \<longleftrightarrow> c = CHR 0x00"
proof -
  have "(of_char (CHR 0x00) :: nat) = 0" by simp
  then have "(of_char c :: nat) = 0 \<longleftrightarrow> (of_char c :: nat) = of_char (CHR 0x00)" by simp
  then show ?thesis by (simp only: of_char_eq_iff)
qed

lemma strncmp_prefix:
  "cstring b \<Longrightarrow> strncmp a b (length b) = 0 \<longleftrightarrow> take (length b) a = b"
  apply (induction a b "length b" rule: strncmp.induct)
  apply (auto simp: cstring_def of_char_eq_0)
  done


lemma strcmp_refl: "strcmp a a = 0"
  by (induction a) auto


lemma take_eq_prefix: "take (length b) a = b \<longleftrightarrow> prefix b a"
  by (metis append_eq_conv_conj prefix_def take_is_prefix)

lemma suffix_after_last:
  "(case strrchr s c of None \<Rightarrow> None | Some tmp \<Rightarrow> Some (drop 1 tmp)) = Some v
     \<longleftrightarrow> (\<exists>n. s = n @ c # v \<and> c \<notin> set v)"
proof
  assume "(case strrchr s c of None \<Rightarrow> None | Some tmp \<Rightarrow> Some (drop 1 tmp)) = Some v"
  then obtain tmp where t: "strrchr s c = Some tmp" "v = drop 1 tmp"
    by (auto split: option.splits)
  from strrchr_Some [OF t(1)] t(2) show "\<exists>n. s = n @ c # v \<and> c \<notin> set v" by auto
next
  assume "\<exists>n. s = n @ c # v \<and> c \<notin> set v"
  then show "(case strrchr s c of None \<Rightarrow> None | Some tmp \<Rightarrow> Some (drop 1 tmp)) = Some v"
    by (auto simp: strrchr_last)
qed

lemma suffix_absent:
  "(case strrchr s c of None \<Rightarrow> None | Some tmp \<Rightarrow> Some (drop 1 tmp)) = None \<longleftrightarrow> c \<notin> set s"
proof (cases "strrchr s c")
  case None
  then show ?thesis by (simp add: strrchr_None [symmetric])
next
  case (Some tmp)
  then have "c \<in> set s" using strrchr_None [of s c] by auto
  with Some show ?thesis by simp
qed

section \<open>Properties of the identifier grammar parser\<close>

text \<open>
  Claim C5. For every string \<open>s\<close>, the version, the revision and the epoch are each the
  suffix of \<open>s\<close> after the last occurrence of their delimiter (\<open>-\<close>, \<open>_\<close>, \<open>:\<close>): the
  function returns \<open>v\<close> exactly when \<open>s\<close> is some prefix, the delimiter and \<open>v\<close>, with no
  delimiter in \<open>v\<close>. It returns absent exactly when the delimiter does not occur in \<open>s\<close>;
  an empty suffix is returned as the empty string, which is not absent.
\<close>

theorem pkg_fields_follow_last_delimiter:
  "(xbps_get_pkg_version s = Some v \<longleftrightarrow> (\<exists>n. s = n @ CHR ''-'' # v \<and> CHR ''-'' \<notin> set v)) \<and>
   (xbps_get_pkg_revision s = Some v \<longleftrightarrow> (\<exists>n. s = n @ CHR ''_'' # v \<and> CHR ''_'' \<notin> set v)) \<and>
   (xbps_get_pkg_epoch s = Some v \<longleftrightarrow> (\<exists>n. s = n @ CHR '':'' # v \<and> CHR '':'' \<notin> set v)) \<and>
   (xbps_get_pkg_version s = None \<longleftrightarrow> CHR ''-'' \<notin> set s) \<and>
   (xbps_get_pkg_revision s = None \<longleftrightarrow> CHR ''_'' \<notin> set s) \<and>
   (xbps_get_pkg_epoch s = None \<longleftrightarrow> CHR '':'' \<notin> set s)"
  unfolding xbps_get_pkg_version_def xbps_get_pkg_revision_def xbps_get_pkg_epoch_def
  by (simp only: suffix_after_last suffix_absent simp_thms)

theorem pkg_fields_follow_last_delimiter_witness:
  "xbps_get_pkg_version ''foo-1.0_2:3'' = Some ''1.0_2:3'' \<and>
   xbps_get_pkg_revision ''foo-1.0_2:3'' = Some ''2:3'' \<and>
   xbps_get_pkg_epoch ''foo-1.0_2:3'' = Some ''3'' \<and>
   xbps_get_pkg_version ''a-b-'' = Some [] \<and>
   xbps_get_pkg_version ''foo'' = None \<and>
   xbps_get_pkg_revision ''foo'' = None \<and>
   xbps_get_pkg_epoch ''foo'' = None"
proof -
  note t = pkg_fields_follow_last_delimiter
  have "xbps_get_pkg_version ''foo-1.0_2:3'' = Some ''1.0_2:3''"
    by (rule t [THEN conjunct1, THEN iffD2]) (rule exI [of _ "''foo''"], simp)
  moreover have "xbps_get_pkg_revision ''foo-1.0_2:3'' = Some ''2:3''"
    by (rule t [THEN conjunct2, THEN conjunct1, THEN iffD2])
       (rule exI [of _ "''foo-1.0''"], simp)
  moreover have "xbps_get_pkg_epoch ''foo-1.0_2:3'' = Some ''3''"
    by (rule t [THEN conjunct2, THEN conjunct2, THEN conjunct1, THEN iffD2])
       (rule exI [of _ "''foo-1.0_2''"], simp)
  moreover have "xbps_get_pkg_version ''a-b-'' = Some []"
    by (rule t [THEN conjunct1, THEN iffD2]) (rule exI [of _ "''a-b''"], simp)
  moreover have "xbps_get_pkg_version ''foo'' = None"
    by (rule t [of _ "[]", THEN conjunct2, THEN conjunct2, THEN conjunct2,
          THEN conjunct1, THEN iffD2]) simp
  moreover have "xbps_get_pkg_revision ''foo'' = None"
    by (rule t [of _ "[]", THEN conjunct2, THEN conjunct2, THEN conjunct2,
          THEN conjunct2, THEN conjunct1, THEN iffD2]) simp
  moreover have "xbps_get_pkg_epoch ''foo'' = None"
    by (rule t [of _ "[]", THEN conjunct2, THEN conjunct2, THEN conjunct2,
          THEN conjunct2, THEN conjunct2, THEN iffD2]) simp
  ultimately show ?thesis by (intro conjI)
qed

text \<open>
  Claim C6. A string \<open>s\<close> that contains \<open>-\<close> splits at its last \<open>-\<close> into \<open>n\<close> and \<open>v\<close>:
  the version is \<open>v\<close>, and the name is \<open>n\<close>, the prefix strictly before that \<open>-\<close>, when the
  copy of \<open>length n + 1\<close> bytes can be allocated (and absent when it cannot), so that name,
  \<open>-\<close> and version give \<open>s\<close> back. For a string without \<open>-\<close> both are absent.
\<close>

theorem pkg_name_is_prefix_before_last_dash:
  "(CHR ''-'' \<in> set s \<longrightarrow>
      (\<exists>n v. s = n @ ''-'' @ v \<and> CHR ''-'' \<notin> set v \<and>
             xbps_get_pkg_version s = Some v \<and>
             xbps_get_pkg_name malloc s = (if malloc (length n + 1) then Some n else None))) \<and>
   (CHR ''-'' \<notin> set s \<longrightarrow>
      xbps_get_pkg_name malloc s = None \<and> xbps_get_pkg_version s = None)"
proof (intro conjI impI)
  assume "CHR ''-'' \<in> set s"
  then obtain tmp where t: "strrchr s (CHR ''-'') = Some tmp"
    using strrchr_None [of s "CHR ''-''"] by auto
  from strrchr_Some [OF t] obtain n v where
    nv: "s = n @ CHR ''-'' # v" "tmp = CHR ''-'' # v" "CHR ''-'' \<notin> set v" by blast
  have "xbps_get_pkg_version s = Some v"
    using t nv by (simp add: xbps_get_pkg_version_def)
  moreover have "xbps_get_pkg_name malloc s = (if malloc (length n + 1) then Some n else None)"
    using t nv by (simp add: xbps_get_pkg_name_def strlcpy_def)
  ultimately show "\<exists>n v. s = n @ ''-'' @ v \<and> CHR ''-'' \<notin> set v \<and>
             xbps_get_pkg_version s = Some v \<and>
             xbps_get_pkg_name malloc s = (if malloc (length n + 1) then Some n else None)"
    using nv by auto
next
  assume "CHR ''-'' \<notin> set s"
  then have "strrchr s (CHR ''-'') = None" by (simp add: strrchr_None)
  then show "xbps_get_pkg_name malloc s = None"  "xbps_get_pkg_version s = None"
    by (simp_all add: xbps_get_pkg_name_def xbps_get_pkg_version_def)
qed

theorem pkg_name_is_prefix_before_last_dash_witness:
  "CHR ''-'' \<in> set ''foo-bar-1.0'' \<and>
   xbps_get_pkg_name malloc_succeeds ''foo-bar-1.0'' = Some ''foo-bar'' \<and>
   xbps_get_pkg_version ''foo-bar-1.0'' = Some ''1.0'' \<and>
   CHR ''-'' \<notin> set ''foo'' \<and>
   xbps_get_pkg_name malloc_succeeds ''foo'' = None \<and> xbps_get_pkg_version ''foo'' = None"
proof -
  have h1: "CHR ''-'' \<in> set ''foo-bar-1.0''" by simp
  have h2: "CHR ''-'' \<notin> set ''foo''" by simp
  note t1 = pkg_name_is_prefix_before_last_dash [of "''foo-bar-1.0''" malloc_succeeds,
      THEN conjunct1, THEN mp, OF h1]
  note t2 = pkg_name_is_prefix_before_last_dash [of "''foo''" malloc_succeeds,
      THEN conjunct2, THEN mp, OF h2]
  from t1 obtain n v where s: "''foo-bar-1.0'' = n @ ''-'' @ v"
    and v: "xbps_get_pkg_version ''foo-bar-1.0'' = Some v"
    and n: "xbps_get_pkg_name malloc_succeeds ''foo-bar-1.0'' =
        (if malloc_succeeds (length n + 1) then Some n else None)"
    by blast
  have "xbps_get_pkg_version ''foo-bar-1.0'' = Some ''1.0''"
    by (simp add: xbps_get_pkg_version_def)
  with v have v': "v = ''1.0''" by simp
  have L: "''foo-bar-1.0'' = ''foo-bar'' @ ''-'' @ ''1.0''" by simp
  have "n @ ''-'' @ ''1.0'' = ''foo-bar'' @ ''-'' @ ''1.0''"
    using s [unfolded v', symmetric] L by (rule trans)
  then have n': "n = ''foo-bar''" by (simp only: append_same_eq)
  from n n' have "xbps_get_pkg_name malloc_succeeds ''foo-bar-1.0'' = Some ''foo-bar''"
    by (simp add: malloc_succeeds_def)
  with h1 h2 v v' t2 show ?thesis by (intro conjI) simp_all
qed


section \<open>Properties of the pattern splitter\<close>

lemma set_constraint_chars: "set ''><='' = {CHR ''>'', CHR ''<'', CHR ''=''}"
  by simp

text \<open>
  Claim C7. A pattern \<open>p\<close> that contains one of \<open>>\<close>, \<open><\<close>, \<open>=\<close> splits at the first such
  character \<open>c\<close> into \<open>n\<close> and \<open>c # v\<close>: the constraint is \<open>c # v\<close>, from that character to
  the end, and the name is \<open>n\<close>, the text strictly before it, when the copy of
  \<open>length n + 1\<close> bytes can be allocated (and absent when it cannot). For a pattern with
  none of the three characters both are absent.
\<close>

theorem pkgpattern_splits_at_first_operator:
  "(set p \<inter> {CHR ''>'', CHR ''<'', CHR ''=''} \<noteq> {} \<longrightarrow>
      (\<exists>n c v. p = n @ c # v \<and> c \<in> {CHR ''>'', CHR ''<'', CHR ''=''} \<and>
               set n \<inter> {CHR ''>'', CHR ''<'', CHR ''=''} = {} \<and>
               xbps_get_pkgpattern_version p = Some (c # v) \<and>
               xbps_get_pkgpattern_name malloc p =
                 (if malloc (length n + 1) then Some n else None))) \<and>
   (set p \<inter> {CHR ''>'', CHR ''<'', CHR ''=''} = {} \<longrightarrow>
      xbps_get_pkgpattern_name malloc p = None \<and> xbps_get_pkgpattern_version p = None)"
proof (intro conjI impI)
  assume "set p \<inter> {CHR ''>'', CHR ''<'', CHR ''=''} \<noteq> {}"
  then have "strpbrk p ''><='' \<noteq> None"
    by (simp only: strpbrk_None set_constraint_chars) simp
  then obtain res where r: "strpbrk p ''><='' = Some res" by blast
  from strpbrk_Some [OF r] obtain n c v where
    ncv: "p = n @ c # v" "res = c # v" "c \<in> set ''><=''" "set n \<inter> set ''><='' = {}"
    by blast
  have "xbps_get_pkgpattern_version p = Some (c # v)"
    using r ncv(2) by (simp add: xbps_get_pkgpattern_version_def)
  moreover have "xbps_get_pkgpattern_name malloc p =
      (if malloc (length n + 1) then Some n else None)"
    using r ncv(1,2) by (simp add: xbps_get_pkgpattern_name_def strlcpy_def)
  ultimately show "\<exists>n c v. p = n @ c # v \<and> c \<in> {CHR ''>'', CHR ''<'', CHR ''=''} \<and>
               set n \<inter> {CHR ''>'', CHR ''<'', CHR ''=''} = {} \<and>
               xbps_get_pkgpattern_version p = Some (c # v) \<and>
               xbps_get_pkgpattern_name malloc p =
                 (if malloc (length n + 1) then Some n else None)"
    using ncv(1,3,4) unfolding set_constraint_chars by blast
next
  assume "set p \<inter> {CHR ''>'', CHR ''<'', CHR ''=''} = {}"
  then have "strpbrk p ''><='' = None"
    by (simp only: strpbrk_None set_constraint_chars)
  then show "xbps_get_pkgpattern_name malloc p = None" "xbps_get_pkgpattern_version p = None"
    by (simp_all add: xbps_get_pkgpattern_name_def xbps_get_pkgpattern_version_def)
qed

theorem pkgpattern_splits_at_first_operator_witness:
  "set ''foo>=1.0'' \<inter> {CHR ''>'', CHR ''<'', CHR ''=''} \<noteq> {} \<and>
   xbps_get_pkgpattern_name malloc_succeeds ''foo>=1.0'' = Some ''foo'' \<and>
   xbps_get_pkgpattern_version ''foo>=1.0'' = Some ''>=1.0'' \<and>
   set ''foo'' \<inter> {CHR ''>'', CHR ''<'', CHR ''=''} = {} \<and>
   xbps_get_pkgpattern_name malloc_succeeds ''foo'' = None \<and>
   xbps_get_pkgpattern_version ''foo'' = None"
proof -
  have h1: "set ''foo>=1.0'' \<inter> {CHR ''>'', CHR ''<'', CHR ''=''} \<noteq> {}" by simp
  have h2: "set ''foo'' \<inter> {CHR ''>'', CHR ''<'', CHR ''=''} = {}" by simp
  note t1 = pkgpattern_splits_at_first_operator [of "''foo>=1.0''" malloc_succeeds,
      THEN conjunct1, THEN mp, OF h1]
  note t2 = pkgpattern_splits_at_first_operator [of "''foo''" malloc_succeeds,
      THEN conjunct2, THEN mp, OF h2]
  from t1 obtain n c v where s: "''foo>=1.0'' = n @ c # v"
    and v: "xbps_get_pkgpattern_version ''foo>=1.0'' = Some (c # v)"
    and n: "xbps_get_pkgpattern_name malloc_succeeds ''foo>=1.0'' =
        (if malloc_succeeds (length n + 1) then Some n else None)"
    by (elim exE conjE) (rule that)
  have "xbps_get_pkgpattern_version ''foo>=1.0'' = Some ''>=1.0''"
    by (simp add: xbps_get_pkgpattern_version_def)
  with v have v': "c # v = ''>=1.0''" by simp
  have L: "''foo>=1.0'' = ''foo'' @ ''>=1.0''" by simp
  have "n @ ''>=1.0'' = ''foo'' @ ''>=1.0''"
    using s [unfolded v', symmetric] L by (rule trans)
  then have n': "n = ''foo''" by (simp only: append_same_eq)
  from n n' have "xbps_get_pkgpattern_name malloc_succeeds ''foo>=1.0'' = Some ''foo''"
    by (simp add: malloc_succeeds_def)
  with h1 h2 v v' t2 show ?thesis by (intro conjI) simp_all
qed


section \<open>Properties of the remote test\<close>

lemma strncmp_literal:
  "cstring b \<Longrightarrow> length b = n \<Longrightarrow> strncmp a b n = 0 \<longleftrightarrow> prefix b a"
  using strncmp_prefix [of b a] take_eq_prefix [of b a] by blast

text \<open>
  Claim C8. A string is classified as remote exactly when it starts with \<open>https://\<close>,
  \<open>http://\<close> or \<open>ftp://\<close>, compared character by character; every other string,
  an upper-case scheme included, is local.
\<close>

theorem remote_iff_scheme_prefix:
  "xbps_check_is_repo_string_remote uri \<longleftrightarrow>
     prefix ''https://'' uri \<or> prefix ''http://'' uri \<or> prefix ''ftp://'' uri"
proof -
  have "strncmp uri ''https://'' 8 = 0 \<longleftrightarrow> prefix ''https://'' uri"
    by (rule strncmp_literal) (simp_all add: cstring_def)
  moreover have "strncmp uri ''http://'' 7 = 0 \<longleftrightarrow> prefix ''http://'' uri"
    by (rule strncmp_literal) (simp_all add: cstring_def)
  moreover have "strncmp uri ''ftp://'' 6 = 0 \<longleftrightarrow> prefix ''ftp://'' uri"
    by (rule strncmp_literal) (simp_all add: cstring_def)
  ultimately show ?thesis
    by (simp only: xbps_check_is_repo_string_remote_def if_bool_eq_conj simp_thms)
qed

theorem remote_iff_scheme_prefix_witness:
  "xbps_check_is_repo_string_remote ''https://example.org/repo'' \<and>
   xbps_check_is_repo_string_remote ''http://example.org/repo'' \<and>
   xbps_check_is_repo_string_remote ''ftp://example.org/repo'' \<and>
   \<not> xbps_check_is_repo_string_remote ''HTTP://example.org/repo'' \<and>
   \<not> xbps_check_is_repo_string_remote ''Https://example.org/repo'' \<and>
   \<not> xbps_check_is_repo_string_remote ''file:///srv/repo'' \<and>
   \<not> xbps_check_is_repo_string_remote ''http:/'' \<and>
   \<not> xbps_check_is_repo_string_remote ''/srv/repo'' \<and>
   \<not> xbps_check_is_repo_string_remote []"
  by (simp add: remote_iff_scheme_prefix)

section \<open>Properties of the digest engine\<close>




lemma get_file_hash_errno_indep:
  "fst (xbps_get_file_hash sys e file) = fst (xbps_get_file_hash sys e' file)"
  by (simp add: xbps_get_file_hash_def Let_def strdup_def split: option.splits)

text \<open>
  Claim C3. When the digest of a file is computed, that is, \<^const>\<open>xbps_get_file_hash\<close>
  returns a string \<open>h\<close>, checking the same file against \<open>h\<close> returns 0.
\<close>

theorem verify_computed_digest_ok:
  "fst (xbps_get_file_hash sys e file) = Some h \<Longrightarrow> xbps_check_file_hash sys e' file h = 0"
proof -
  assume "fst (xbps_get_file_hash sys e file) = Some h"
  then have "fst (xbps_get_file_hash sys e' file) = Some h"
    by (simp only: get_file_hash_errno_indep [of sys e' _ e])
  then obtain e'' where "xbps_get_file_hash sys e' file = (Some h, e'')"
    by (cases "xbps_get_file_hash sys e' file") simp
  then show ?thesis by (simp add: xbps_check_file_hash_def strcmp_refl)
qed

theorem verify_computed_digest_ok_witness:
  "fst (xbps_get_file_hash sys0 0 ''f'') =
     Some ''abababababababababababababababababababababababababababababababab'' \<and>
   xbps_check_file_hash sys0 0 ''f''
     ''abababababababababababababababababababababababababababababababab'' = 0"
proof -
  have h: "fst (xbps_get_file_hash sys0 0 ''f'') =
     Some ''abababababababababababababababababababababababababababababababab''"
    unfolding sys0_def by code_simp
  from h verify_computed_digest_ok [OF h, of 0] show ?thesis by (intro conjI)
qed

text \<open>
  For an empty file the digest is computed, and \<^verbatim>\<open>munmap\<close> of 0 bytes leaves
  \<^const>\<open>EINVAL\<close> in \<^verbatim>\<open>errno\<close>; for the file of three bytes \<^verbatim>\<open>errno\<close> is untouched.
\<close>

lemma get_file_hash_empty_file:
  "xbps_get_file_hash sys_empty_file 0 ''f'' =
     (Some ''abababababababababababababababababababababababababababababababab'', EINVAL) \<and>
   xbps_get_file_hash sys0 0 ''f'' =
     (Some ''abababababababababababababababababababababababababababababababab'', 0)"
  unfolding sys_empty_file_def sys0_def EINVAL_def by code_simp





section \<open>Properties of the configuration\<close>

text \<open>
  Claim C9 as stated fails: with an unset cache directory and a root directory of 4096
  characters the first read of the cache directory returns absent.
\<close>

theorem cachedir_default_counterexample:
  "cachedir conf_long_root = None \<and>
   rootdir conf_long_root = Some (replicate 4096 (CHR ''a'')) \<and>
   fst (xbps_get_cachedir plat0 conf_long_root) = None \<and>
   fst (xbps_get_cachedir plat0 conf_long_root) \<noteq>
     Some (replicate 4096 (CHR ''a'') @ ''/'' @ XBPS_CACHE_PATH plat0)"
  by (simp add: conf_long_root_def plat0_def xbps_get_cachedir_def xbps_get_rootdir_def
      snprintf_def INT_MAX_def)

lemma get_cachedir_unset:
  "cachedir c = None \<Longrightarrow> xbps_get_rootdir c = (root, c') \<Longrightarrow>
   xbps_get_cachedir p c =
     (if int (length (root @ ''/'' @ XBPS_CACHE_PATH p)) \<le> INT_MAX \<and>
         int (length (root @ ''/'' @ XBPS_CACHE_PATH p)) < int (PATH_MAX p) - 1
      then (Some (root @ ''/'' @ XBPS_CACHE_PATH p),
            c'\<lparr>cachedir := Some (root @ ''/'' @ XBPS_CACHE_PATH p)\<rparr>)
      else (None, c'))"
  by (auto simp: xbps_get_cachedir_def snprintf_def)

lemma get_cachedir_set: "cachedir c = Some d \<Longrightarrow> xbps_get_cachedir p c = (Some d, c)"
  by (simp add: xbps_get_cachedir_def)

text \<open>
  Claim C9, amended. If the root directory was never set, the first read returns \<open>/\<close>
  and so does the next one. If the cache directory was never set, the first read builds
  the root directory (defaulted in the same way), \<open>/\<close> and the cache subpath constant; it
  returns and stores that string when its length is below \<open>PATH_MAX - 1\<close> (and fits an
  \<^verbatim>\<open>int\<close>), and the next read returns the same. Otherwise the read returns absent and
  the cache directory stays unset.
\<close>

theorem defaults_on_first_read:
  "(rootdir c = None \<longrightarrow>
      fst (xbps_get_rootdir c) = ''/'' \<and>
      xbps_get_rootdir (snd (xbps_get_rootdir c)) = (''/'', snd (xbps_get_rootdir c))) \<and>
   (cachedir c = None \<longrightarrow>
      (let root = fst (xbps_get_rootdir c);
           c' = snd (xbps_get_rootdir c);
           d = root @ ''/'' @ XBPS_CACHE_PATH p
       in if int (length d) \<le> INT_MAX \<and> int (length d) < int (PATH_MAX p) - 1
          then xbps_get_cachedir p c = (Some d, c'\<lparr>cachedir := Some d\<rparr>) \<and>
               xbps_get_cachedir p (c'\<lparr>cachedir := Some d\<rparr>) =
                 (Some d, c'\<lparr>cachedir := Some d\<rparr>)
          else xbps_get_cachedir p c = (None, c')))"
proof (intro conjI impI)
  assume "rootdir c = None"
  then show "fst (xbps_get_rootdir c) = ''/''"
    and "xbps_get_rootdir (snd (xbps_get_rootdir c)) = (''/'', snd (xbps_get_rootdir c))"
    by (simp_all add: xbps_get_rootdir_def)
next
  assume n: "cachedir c = None"
  have g: "xbps_get_rootdir c = (fst (xbps_get_rootdir c), snd (xbps_get_rootdir c))"
    by simp
  show "let root = fst (xbps_get_rootdir c);
           c' = snd (xbps_get_rootdir c);
           d = root @ ''/'' @ XBPS_CACHE_PATH p
       in if int (length d) \<le> INT_MAX \<and> int (length d) < int (PATH_MAX p) - 1
          then xbps_get_cachedir p c = (Some d, c'\<lparr>cachedir := Some d\<rparr>) \<and>
               xbps_get_cachedir p (c'\<lparr>cachedir := Some d\<rparr>) =
                 (Some d, c'\<lparr>cachedir := Some d\<rparr>)
          else xbps_get_cachedir p c = (None, c')"
    unfolding Let_def get_cachedir_unset [OF n g]
    by (simp add: get_cachedir_set)
qed

theorem defaults_on_first_read_witness:
  "rootdir conf0 = None \<and> cachedir conf0 = None \<and>
   fst (xbps_get_rootdir conf0) = ''/'' \<and>
   xbps_get_cachedir plat0 conf0 =
     (Some ''//var/cache/xbps'',
      \<lparr>rootdir = Some ''/'', cachedir = Some ''//var/cache/xbps'', flags = 0\<rparr>) \<and>
   cachedir conf_long_root = None \<and>
   xbps_get_cachedir plat0 conf_long_root = (None, conf_long_root)"
proof -
  have r: "rootdir conf0 = None" and c: "cachedir conf0 = None"
    and l: "cachedir conf_long_root = None"
    by (simp_all add: conf0_def conf_long_root_def)
  have "fst (xbps_get_rootdir conf0) = ''/''"
    using defaults_on_first_read [of conf0, THEN conjunct1, rule_format, OF r] by simp
  moreover have "xbps_get_cachedir plat0 conf0 =
     (Some ''//var/cache/xbps'',
      \<lparr>rootdir = Some ''/'', cachedir = Some ''//var/cache/xbps'', flags = 0\<rparr>)"
    using defaults_on_first_read [of conf0 plat0, THEN conjunct2, rule_format, OF c]
    by (simp add: Let_def conf0_def plat0_def xbps_get_rootdir_def INT_MAX_def)
  moreover have "xbps_get_cachedir plat0 conf_long_root = (None, conf_long_root)"
    using defaults_on_first_read [of conf_long_root plat0, THEN conjunct2, rule_format, OF l]
    by (simp add: Let_def conf_long_root_def plat0_def xbps_get_rootdir_def INT_MAX_def)
  ultimately show ?thesis using r c l by (intro conjI)
qed

text \<open>
  Claim C10. The setter of the cache directory stores the root directory (with its
  default), \<open>/\<close> and the given directory, which is never the given string itself, when
  the length of that text is below \<open>PATH_MAX - 1\<close> and fits an \<^verbatim>\<open>int\<close>; otherwise it
  stores the default cache subpath constant, without any prefix. The root directory is
  resolved on the way and the flags are untouched.
\<close>

theorem set_cachedir_stores_prefixed_path:
  "(let root = fst (xbps_get_rootdir c);
        d = root @ ''/'' @ dir;
        c' = xbps_set_cachedir p dir c
    in cachedir c' =
         (if int (length d) \<le> INT_MAX \<and> int (length d) < int (PATH_MAX p) - 1
          then Some d else Some (XBPS_CACHE_PATH p)) \<and>
       d \<noteq> dir \<and> rootdir c' = Some root \<and> flags c' = flags c)"
  by (auto simp: Let_def xbps_set_cachedir_def xbps_get_rootdir_def snprintf_def
      split: option.splits)

theorem set_cachedir_stores_prefixed_path_witness:
  "cachedir (xbps_set_cachedir plat0 ''cache'' conf0) = Some ''//cache'' \<and>
   cachedir (xbps_set_cachedir plat0 ''cache'' (xbps_set_rootdir ''/mnt'' conf0)) =
     Some ''/mnt/cache'' \<and>
   cachedir (xbps_set_cachedir plat0 (replicate 4096 (CHR ''x'')) conf0) =
     Some ''var/cache/xbps''"
  using set_cachedir_stores_prefixed_path [of conf0 "''cache''" plat0]
    set_cachedir_stores_prefixed_path [of "xbps_set_rootdir ''/mnt'' conf0" "''cache''" plat0]
    set_cachedir_stores_prefixed_path [of conf0 "replicate 4096 (CHR ''x'')" plat0]
  by (simp add: Let_def conf0_def plat0_def xbps_get_rootdir_def xbps_set_rootdir_def
      INT_MAX_def)

section \<open>Properties of the installed-state check\<close>

text \<open>
  Claim C1 as stated fails: \<open>foo\<close> has no constraint character and is installed, yet the
  check of \<open>foo\<close> returns \<open>-1\<close>, the error value, while \<open>foo>=1.0\<close> is matched.
\<close>

theorem installed_check_bare_name_counterexample:
  "set ''foo'' \<inter> {CHR ''>'', CHR ''<'', CHR ''=''} = {} \<and>
   xbps_check_is_installed_pkgname ms_foo ''foo'' \<and>
   xbps_check_is_installed_pkg ms_foo malloc_succeeds ''foo'' = - 1 \<and>
   xbps_check_is_installed_pkg ms_foo malloc_succeeds ''foo>=1.0'' = 1"
  by (simp add: ms_foo_def malloc_succeeds_def xbps_check_is_installed_pkg_def xbps_check_is_installed_pkgname_def
      xbps_get_pkgpattern_name_def strlcpy_def xbps_get_pkgver_from_dict_def
      prop_dictionary_get_cstring_nocopy_def)

lemma pkgpattern_name_split:
  "set n \<inter> set ''><='' = {} \<Longrightarrow> c \<in> set ''><='' \<Longrightarrow>
   xbps_get_pkgpattern_name malloc (n @ c # v) =
     (if malloc (length n + 1) then Some n else None)"
  by (simp add: xbps_get_pkgpattern_name_def strpbrk_first strlcpy_def)

text \<open>
  Claim C1, amended. For a pattern without constraint character the pattern splitter
  returns absent and the check returns \<open>-1\<close>, whatever the metadata store holds: there is
  no fallback to the whole string. For a pattern that has one, the store is asked for the
  text before the first such character (when that copy can be allocated), and if it has
  no such record the check returns 0, not installed, when the store reports
  \<^const>\<open>ENOENT\<close>, and \<open>-1\<close> for any other error.
\<close>

theorem installed_check_without_constraint_is_error:
  "(set pkg \<inter> {CHR ''>'', CHR ''<'', CHR ''=''} = {} \<longrightarrow>
      xbps_get_pkgpattern_name malloc pkg = None \<and>
      xbps_check_is_installed_pkg ms malloc pkg = - 1) \<and>
   (pkg = n @ c # v \<and> c \<in> {CHR ''>'', CHR ''<'', CHR ''=''} \<and>
    set n \<inter> {CHR ''>'', CHR ''<'', CHR ''=''} = {} \<and> malloc (length n + 1) \<and>
    xbps_find_pkg_dict_installed ms n False = (None, errno) \<longrightarrow>
      xbps_check_is_installed_pkg ms malloc pkg = (if errno = ENOENT then 0 else - 1))"
proof (intro conjI impI)
  assume "set pkg \<inter> {CHR ''>'', CHR ''<'', CHR ''=''} = {}"
  then have "strpbrk pkg ''><='' = None"
    by (simp only: strpbrk_None set_constraint_chars)
  then show "xbps_get_pkgpattern_name malloc pkg = None"
    and "xbps_check_is_installed_pkg ms malloc pkg = - 1"
    by (simp_all add: xbps_check_is_installed_pkg_def xbps_get_pkgpattern_name_def)
next
  assume a: "pkg = n @ c # v \<and> c \<in> {CHR ''>'', CHR ''<'', CHR ''=''} \<and>
    set n \<inter> {CHR ''>'', CHR ''<'', CHR ''=''} = {} \<and> malloc (length n + 1) \<and>
    xbps_find_pkg_dict_installed ms n False = (None, errno)"
  then have "xbps_get_pkgpattern_name malloc pkg = Some n"
    using pkgpattern_name_split [of n c malloc v] by (simp only: set_constraint_chars) simp
  with a show "xbps_check_is_installed_pkg ms malloc pkg = (if errno = ENOENT then 0 else - 1)"
    by (simp add: xbps_check_is_installed_pkg_def)
qed

theorem installed_check_without_constraint_is_error_witness:
  "set ''foo'' \<inter> {CHR ''>'', CHR ''<'', CHR ''=''} = {} \<and>
   xbps_check_is_installed_pkg ms_foo malloc_succeeds ''foo'' = - 1 \<and>
   xbps_find_pkg_dict_installed ms_foo ''bar'' False = (None, ENOENT) \<and>
   xbps_check_is_installed_pkg ms_foo malloc_succeeds ''bar>=1.0'' = 0"
proof -
  note t = installed_check_without_constraint_is_error
  have h: "set ''foo'' \<inter> {CHR ''>'', CHR ''<'', CHR ''=''} = {}" by simp
  have f: "xbps_find_pkg_dict_installed ms_foo ''bar'' False = (None, ENOENT)"
    by (simp add: ms_foo_def)
  have g: "''bar>=1.0'' = ''bar'' @ CHR ''>'' # ''=1.0'' \<and>
      CHR ''>'' \<in> {CHR ''>'', CHR ''<'', CHR ''=''} \<and>
      set ''bar'' \<inter> {CHR ''>'', CHR ''<'', CHR ''=''} = {} \<and>
      malloc_succeeds (length ''bar'' + 1) \<and>
      xbps_find_pkg_dict_installed ms_foo ''bar'' False = (None, ENOENT)"
    using f by (simp add: malloc_succeeds_def)
  have "xbps_check_is_installed_pkg ms_foo malloc_succeeds ''foo'' = - 1"
    by (rule t [THEN conjunct1, rule_format, OF h, THEN conjunct2])
  moreover have "xbps_check_is_installed_pkg ms_foo malloc_succeeds ''bar>=1.0'' = 0"
    using t [where malloc = malloc_succeeds, THEN conjunct2, rule_format, OF g] by simp
  ultimately show ?thesis using h f by (intro conjI)
qed

section \<open>Properties of the location resolver\<close>

text \<open>
  With both fields present and a cache directory, the path is the repository, the
  architecture and the file name for a local repository, and the cache directory and the
  file name for a remote one; without a cache directory the result is \<^verbatim>\<open>NULL\<close>.
\<close>

lemma binpkg_path_fields_present:
  "pkgd ''filename'' = Some (Prop_string f) \<Longrightarrow>
   pkgd ''architecture'' = Some (Prop_string a) \<Longrightarrow>
   xbps_get_cachedir p c = (Some cdir, c') \<Longrightarrow>
   xbps_get_binpkg_local_path p malloc pkgd repoloc c =
     (Returns (xbps_xasprintf malloc
        (if xbps_check_is_repo_string_remote repoloc then cdir @ ''/'' @ f
         else repoloc @ ''/'' @ a @ ''/'' @ f)), c')"
  by (simp add: xbps_get_binpkg_local_path_def prop_dictionary_get_cstring_nocopy_def)

lemma binpkg_path_no_cachedir:
  "xbps_get_cachedir p c = (None, c') \<Longrightarrow>
   xbps_get_binpkg_local_path p malloc pkgd repoloc c = (Returns None, c')"
  by (simp add: xbps_get_binpkg_local_path_def)

text \<open>
  Claim C2 fails on the code: no absent field is reported. For a record without file
  name and a local repository the never assigned \<^verbatim>\<open>filen\<close> is formatted, which has no
  defined result; for a record without architecture and a remote repository the path in
  the cache directory is returned as if nothing were missing.
\<close>

theorem binpkg_path_missing_field_not_reported:
  "prop_dictionary_get_cstring_nocopy pkgd_no_filename ''filename'' = None \<and>
   fst (xbps_get_binpkg_local_path plat0 malloc_succeeds pkgd_no_filename ''/srv/repo'' conf0) =
     Undefined \<and>
   prop_dictionary_get_cstring_nocopy pkgd_no_arch ''architecture'' = None \<and>
   fst (xbps_get_binpkg_local_path plat0 malloc_succeeds pkgd_no_arch ''http://repo.example.org''
          conf0) = Returns (Some ''//var/cache/xbps/foo-1.0.x86_64.xbps'')"
  unfolding pkgd_no_filename_def pkgd_no_arch_def plat0_def conf0_def
  by code_simp

end
